theory Spec2Isabelle
  imports Complex_Main
begin

section \<open>Text primitives\<close>

text \<open>
  Python \<open>str\<close> values are modelled as \<open>string\<close> (lists of characters) over the ASCII
  range.  \<open>is_space\<close> lists the ASCII characters for which \<open>str.isspace\<close> holds; these are
  the characters removed by \<open>str.strip()\<close> without argument.
\<close>

definition is_space :: "char \<Rightarrow> bool" where
  "is_space c = (c \<in> set [CHR 0x09, CHR 0x0A, CHR 0x0B, CHR 0x0C, CHR 0x0D,
                           CHR 0x1C, CHR 0x1D, CHR 0x1E, CHR 0x1F, CHR 0x20])"

definition lstrip :: "string \<Rightarrow> string" where
  "lstrip s = dropWhile is_space s"

definition rstrip :: "string \<Rightarrow> string" where
  "rstrip s = rev (dropWhile is_space (rev s))"

definition strip :: "string \<Rightarrow> string" where
  "strip s = rstrip (lstrip s)"

definition is_digit :: "char \<Rightarrow> bool" where
  "is_digit c = (c \<in> set ''0123456789'')"

definition lower_char :: "char \<Rightarrow> char" where
  "lower_char c =
     (case map_of (zip ''ABCDEFGHIJKLMNOPQRSTUVWXYZ'' ''abcdefghijklmnopqrstuvwxyz'') c of
        None \<Rightarrow> c
      | Some d \<Rightarrow> d)"

definition lower :: "string \<Rightarrow> string" where
  "lower s = map lower_char s"

text \<open>\<open>sep.join(xs)\<close>.\<close>

fun join :: "string \<Rightarrow> string list \<Rightarrow> string" where
  "join sep [] = []"
| "join sep [x] = x"
| "join sep (x # y # ys) = x @ sep @ join sep (y # ys)"

text \<open>\<open>s.split(c)\<close> for a one-character separator: never the empty list.\<close>

fun split_on :: "char \<Rightarrow> string \<Rightarrow> string list" where
  "split_on c [] = [[]]"
| "split_on c (x # xs) =
     (if x = c then [] # split_on c xs
      else (case split_on c xs of [] \<Rightarrow> [[x]] | w # ws \<Rightarrow> (x # w) # ws))"

text \<open>\<open>s.startswith(p)\<close>, \<open>s.endswith(p)\<close>.\<close>

definition startswith :: "string \<Rightarrow> string \<Rightarrow> bool" where
  "startswith s p = (take (length p) s = p)"

definition endswith :: "string \<Rightarrow> string \<Rightarrow> bool" where
  "endswith s p = (length p \<le> length s \<and> drop (length s - length p) s = p)"

section \<open>Embedding generator (Database Manager/embeddings.py)\<close>

text \<open>
  A profile is a dictionary from field names to lists of descriptors.
  \<open>profile.get(k, [])\<close> is \<open>get_list\<close>.
\<close>

type_synonym profile = "string \<rightharpoonup> string list"

definition get_list :: "profile \<Rightarrow> string \<Rightarrow> string list" where
  "get_list p k = (case p k of None \<Rightarrow> [] | Some xs \<Rightarrow> xs)"

text \<open>
  \<open>[s.strip() for s in xs if s and str(s).strip()]\<close>; \<open>flatten_parts\<close> is the list
  \<open>parts\<close> that \<open>_flatten_profile\<close> builds and then joins.
\<close>

definition clean_entries :: "string list \<Rightarrow> string list" where
  "clean_entries xs = map strip (filter (\<lambda>s. s \<noteq> [] \<and> strip s \<noteq> []) xs)"

definition flatten_parts :: "profile \<Rightarrow> string list" where
  "flatten_parts p =
     (let hobbies = clean_entries (get_list p ''hobbies'');
          traits = clean_entries (get_list p ''personality traits'');
          looking = clean_entries (get_list p ''traits looking for '')
      in (if hobbies \<noteq> [] then [''hobbies: '' @ join '', '' hobbies] else [])
       @ (if traits \<noteq> [] then [''personality: '' @ join '', '' traits] else [])
       @ (if looking \<noteq> [] then [''looking_for: '' @ join '', '' looking] else []))"

definition flatten_profile :: "profile \<Rightarrow> string" where
  "flatten_profile p =
     (let parts = flatten_parts p in if parts \<noteq> [] then join '' | '' parts else [])"

text \<open>
  \<open>embed_profile\<close> flattens, replaces an empty text by the fixed representation and calls
  \<open>embed_text\<close>.  \<open>embed_input\<close> is the text that \<open>embed_profile\<close> hands to \<open>embed_text\<close>;
  the embedding service behind \<open>embed_text\<close> is a parameter.
\<close>

definition sentinel :: string where
  "sentinel = ''hobbies: | personality: | looking_for: ''"

definition embed_input :: "profile \<Rightarrow> string" where
  "embed_input p = (let txt = flatten_profile p in if txt = [] then sentinel else txt)"

definition embed_profile :: "(string \<Rightarrow> 'e + real list) \<Rightarrow> profile \<Rightarrow> 'e + real list" where
  "embed_profile embed_text p = embed_text (embed_input p)"

section \<open>Errors and JSON values\<close>

text \<open>
  Every exception the modelled code can raise is a value of \<open>error\<close>; a function that can
  raise returns \<open>error + 'a\<close> with \<open>Inl\<close> for the exception.  \<open>ServiceError\<close> stands for
  any exception coming out of a call to an external service.
\<close>

datatype error =
    FileNotFoundError string
  | RuntimeError string
  | ClientError string
  | ServiceError string
  | ParamValidationError
  | JSONDecodeError
  | DecodeError
  | KeyError
  | IndexError
  | TypeError
  | AttributeError
  | ZeroDivisionError

datatype json =
    JNull
  | JBool bool
  | JNum real
  | JStr string
  | JArr "json list"
  | JObj "(string \<times> json) list"

text \<open>Truth value of a decoded JSON value in a Python condition.\<close>

fun truthy :: "json \<Rightarrow> bool" where
  "truthy JNull = False"
| "truthy (JBool b) = b"
| "truthy (JNum r) = (r \<noteq> 0)"
| "truthy (JStr s) = (s \<noteq> [])"
| "truthy (JArr xs) = (xs \<noteq> [])"
| "truthy (JObj kvs) = (kvs \<noteq> [])"

text \<open>\<open>d.get(k)\<close>: \<open>None\<close> when the key is absent; raises on a value that is no dict.\<close>

fun py_get :: "json \<Rightarrow> string \<Rightarrow> error + json" where
  "py_get (JObj kvs) k = (case map_of kvs k of None \<Rightarrow> Inr JNull | Some v \<Rightarrow> Inr v)"
| "py_get _ k = Inl AttributeError"

text \<open>\<open>v[k]\<close> with a string key and \<open>v[i]\<close> with a non-negative index.\<close>

fun subscript_key :: "json \<Rightarrow> string \<Rightarrow> error + json" where
  "subscript_key (JObj kvs) k = (case map_of kvs k of None \<Rightarrow> Inl KeyError | Some v \<Rightarrow> Inr v)"
| "subscript_key _ k = Inl TypeError"

fun subscript_idx :: "json \<Rightarrow> nat \<Rightarrow> error + json" where
  "subscript_idx (JArr xs) i = (if i < length xs then Inr (xs ! i) else Inl IndexError)"
| "subscript_idx (JStr s) i = (if i < length s then Inr (JStr [s ! i]) else Inl IndexError)"
| "subscript_idx (JObj kvs) i = Inl KeyError"
| "subscript_idx _ i = Inl TypeError"

text \<open>\<open>isinstance(payload, dict) and k in payload\<close>\<close>

fun has_key :: "json \<Rightarrow> string \<Rightarrow> bool" where
  "has_key (JObj kvs) k = (map_of kvs k \<noteq> None)"
| "has_key _ k = False"

text \<open>\<open>len(v)\<close>\<close>

fun py_len :: "json \<Rightarrow> error + nat" where
  "py_len (JStr s) = Inr (length s)"
| "py_len (JArr xs) = Inr (length xs)"
| "py_len (JObj kvs) = Inr (length kvs)"
| "py_len _ = Inl TypeError"

section \<open>Object store\<close>

text \<open>
  The bucket (there is one; its name only appears in messages) is modelled by the kind of
  object its keys hold: transcript artifacts are raw
  text bodies, \<open>profile.json\<close> objects are JSON documents and \<open>vector.json\<close> objects are
  arrays of numbers, as \<open>_save_profile_and_vector\<close> writes them.  The bucket does not
  change while one function runs, except through that function's own writes.  The store
  answers every request: an absent key is the only way a read fails.  Every request
  sent to the store is recorded in a log.
\<close>

record store =
  texts :: "string \<rightharpoonup> string"
  docs :: "string \<rightharpoonup> json"
  vectors :: "string \<rightharpoonup> real list"

datatype s3op = Head string | Get string | Put string

section \<open>Text generation for the similarity service (API Similarity Matching/bedrock\_agent.py)\<close>

text \<open>
  A call of \<open>bedrock.converse\<close> either raises or yields the content blocks of the response
  message.  A block is \<open>Some t\<close> when it is a dict with a \<open>"text"\<close> entry \<open>t\<close> and \<open>None\<close>
  otherwise.  \<open>blocks_text\<close> is the loop that concatenates the text blocks.
\<close>

type_synonym blocks = "string option list"

definition blocks_text :: "blocks \<Rightarrow> string" where
  "blocks_text bs = concat (map (\<lambda>b. case b of None \<Rightarrow> [] | Some t \<Rightarrow> t) bs)"

text \<open>\<open>s.split()\<close>: the maximal runs of non-space characters.\<close>

fun split_by :: "(char \<Rightarrow> bool) \<Rightarrow> string \<Rightarrow> string list" where
  "split_by P [] = [[]]"
| "split_by P (x # xs) =
     (if P x then [] # split_by P xs
      else (case split_by P xs of [] \<Rightarrow> [[x]] | w # ws \<Rightarrow> (x # w) # ws))"

definition split_ws :: "string \<Rightarrow> string list" where
  "split_ws s = filter (\<lambda>w. w \<noteq> []) (split_by is_space s)"

text \<open>\<open>s.strip(chars)\<close>\<close>

definition strip_chars :: "string \<Rightarrow> string \<Rightarrow> string" where
  "strip_chars cs s =
     rev (dropWhile (\<lambda>c. c \<in> set cs) (rev (dropWhile (\<lambda>c. c \<in> set cs) s)))"

text \<open>
  \<open>_clean_summary\<close> with \<open>max_len = 30\<close>.  The two typographic quote characters of the
  source lie outside ASCII and do not occur in the modelled strings.
\<close>

definition clean_summary :: "string \<Rightarrow> string" where
  "clean_summary s0 =
     (let s1 = strip s0;
          s2 = (if (startswith s1 ''```'' \<or> startswith s1 [CHR 0x22] \<or> startswith s1 [CHR 0x27])
                 \<and> (endswith s1 ''```'' \<or> endswith s1 [CHR 0x22] \<or> endswith s1 [CHR 0x27])
                then strip_chars [CHR 0x60, CHR 0x27, CHR 0x22] s1 else s1);
          s3 = join '' '' (split_ws s2)
      in if length s3 > 30 then rstrip (take 30 s3) else s3)"

definition build_sentence_from_profile ::
  "(json \<Rightarrow> error + blocks) \<Rightarrow> json \<Rightarrow> error + string" where
  "build_sentence_from_profile svc profile =
     (case svc profile of
        Inl e \<Rightarrow> Inl e
      | Inr bs \<Rightarrow> Inr (clean_summary (blocks_text bs)))"

text \<open>
  The part of \<open>build_icebreakers_between_profiles\<close> after the service call: split the text
  into stripped non-empty lines, keep the lines that look like questions, fall back to the
  first two lines, return at most two.  The filter is applied to non-empty lines only, so
  \<open>l[0]\<close> always exists there.
\<close>

definition looks_like_question :: "string \<Rightarrow> bool" where
  "looks_like_question l =
     ((case l of [] \<Rightarrow> False | c # _ \<Rightarrow> is_digit c)
      \<or> startswith l ''-'' \<or> CHR ''?'' \<in> set l)"

definition icebreaker_lines :: "string \<Rightarrow> string list" where
  "icebreaker_lines txt =
     map strip (filter (\<lambda>line. strip line \<noteq> []) (split_on CHR 0x0A txt))"

definition pick_questions :: "string \<Rightarrow> string list" where
  "pick_questions txt =
     (let lines = icebreaker_lines txt;
          questions = filter looks_like_question lines;
          questions' = (if length questions < 2 then take 2 lines else questions)
      in take 2 questions')"

definition build_icebreakers_between_profiles ::
  "(json \<Rightarrow> json \<Rightarrow> error + blocks) \<Rightarrow> json \<Rightarrow> json \<Rightarrow> error + string list" where
  "build_icebreakers_between_profiles svc profileA profileB =
     (case svc profileA profileB of
        Inl e \<Rightarrow> Inl e
      | Inr bs \<Rightarrow> Inr (pick_questions (blocks_text bs)))"

section \<open>Similarity service (API Similarity Matching/app\_similarity.py)\<close>

text \<open>
  Python floats are idealised as real numbers; the division raises on a zero divisor as
  Python's does.
\<close>

definition dot :: "real list \<Rightarrow> real list \<Rightarrow> real" where
  "dot x y = sum_list (map (\<lambda>(px, py). px * py) (zip x y))"

definition norm2 :: "real list \<Rightarrow> real" where
  "norm2 x = sqrt (sum_list (map (\<lambda>px. px * px) x))"

definition py_divide :: "real \<Rightarrow> real \<Rightarrow> error + real" where
  "py_divide a b = (if b = 0 then Inl ZeroDivisionError else Inr (a / b))"

definition cosine :: "real list \<Rightarrow> real list \<Rightarrow> error + real" where
  "cosine x y =
     (let d = dot x y; nx = norm2 x; ny = norm2 y
      in if nx = 0 \<or> ny = 0 then Inr 0 else py_divide d (nx * ny))"

definition head_exists :: "(string \<rightharpoonup> 'a) \<Rightarrow> string \<Rightarrow> bool" where
  "head_exists m key = (m key \<noteq> None)"

text \<open>\<open>_load_s3_json\<close>: one existence check, then one read.\<close>

definition load_s3_json :: "(string \<rightharpoonup> 'a) \<Rightarrow> string \<Rightarrow> s3op list \<times> (error + 'a)" where
  "load_s3_json m key =
     (case m key of
        None \<Rightarrow> ([Head key], Inl (FileNotFoundError key))
      | Some v \<Rightarrow> ([Head key, Get key], Inr v))"

definition vector_key :: "string \<Rightarrow> string" where
  "vector_key profile_name = ''profiles/'' @ profile_name @ ''/vector.json''"

definition profile_key :: "string \<Rightarrow> string" where
  "profile_key profile_name = ''profiles/'' @ profile_name @ ''/profile.json''"

definition load_vector :: "store \<Rightarrow> string \<Rightarrow> s3op list \<times> (error + real list)" where
  "load_vector s profile_name = load_s3_json (vectors s) (vector_key profile_name)"

definition load_profile :: "store \<Rightarrow> string \<Rightarrow> s3op list \<times> (error + json)" where
  "load_profile s profile_name = load_s3_json (docs s) (profile_key profile_name)"

text \<open>\<open>(name or "").strip().lower()\<close> on a decoded JSON value.\<close>

definition sanitize_str :: "string \<Rightarrow> string" where
  "sanitize_str name = lower (strip name)"

fun sanitize :: "json \<Rightarrow> error + string" where
  "sanitize (JStr name) = Inr (sanitize_str name)"
| "sanitize v = (if truthy v then Inl AttributeError else Inr [])"

text \<open>
  The request event, the services the handler depends on, and the responses it builds with
  \<open>_json\<close>: \<open>Success\<close> is the 200 response with its \<open>similarity\<close>, \<open>summaries\<close> and
  \<open>icebreakers\<close> fields, \<open>BadRequest m\<close> and \<open>NotFound m\<close> are the 400 and 404 responses
  with body \<open>{"error": m}\<close>, and \<open>ServerError e\<close> is the 500 response built from the
  exception \<open>e\<close>.  A body that is missing from the event is \<open>Some []\<close>, a null body is
  \<open>None\<close>.
\<close>

record event =
  body :: "string option"
  isBase64Encoded :: bool

record services =
  loads :: "string \<Rightarrow> json option"
  b64decode :: "string \<Rightarrow> string option"
  summary_service :: "json \<Rightarrow> error + blocks"
  icebreaker_service :: "json \<Rightarrow> json \<Rightarrow> error + blocks"

datatype response =
    Success real "(string \<times> string option) list" "string list option"
  | BadRequest string
  | NotFound string
  | ServerError error

text \<open>Step 1: extract and decode the body.\<close>

definition decode_body :: "services \<Rightarrow> event \<Rightarrow> error + string option" where
  "decode_body sv ev =
     (if isBase64Encoded ev then
        (case body ev of
           None \<Rightarrow> Inl TypeError
         | Some b \<Rightarrow> (case b64decode sv b of None \<Rightarrow> Inl DecodeError | Some d \<Rightarrow> Inr (Some d)))
      else Inr (body ev))"

text \<open>Step 2: \<open>json.loads(body)\<close>; \<open>None\<close> when it raises.\<close>

definition parse_body :: "services \<Rightarrow> string option \<Rightarrow> json option" where
  "parse_body sv b = (case b of None \<Rightarrow> None | Some t \<Rightarrow> loads sv t)"

text \<open>
  Step 6, for one profile: load it and ask for its sentence.  Only \<open>FileNotFoundError\<close> is
  handled; the result is the log, and either the exception that escapes or the pair
  \<open>(prof, sentence)\<close>.
\<close>

definition enrich_one ::
  "services \<Rightarrow> store \<Rightarrow> string \<Rightarrow> s3op list \<times> (error + json option \<times> string option)" where
  "enrich_one sv s name =
     (case load_profile s name of
        (l, Inl (FileNotFoundError k)) \<Rightarrow> (l, Inr (None, None))
      | (l, Inl e) \<Rightarrow> (l, Inl e)
      | (l, Inr prof) \<Rightarrow>
          (case build_sentence_from_profile (summary_service sv) prof of
             Inl (FileNotFoundError k) \<Rightarrow> (l, Inr (None, None))
           | Inl e \<Rightarrow> (l, Inl e)
           | Inr sentence \<Rightarrow> (l, Inr (Some prof, Some sentence))))"

text \<open>Step 7: icebreakers only when both profiles are present and truthy; any exception gives \<open>None\<close>.\<close>

definition make_icebreakers ::
  "services \<Rightarrow> json option \<Rightarrow> json option \<Rightarrow> string list option" where
  "make_icebreakers sv prof_a prof_b =
     (case (prof_a, prof_b) of
        (Some pa, Some pb) \<Rightarrow>
          (if truthy pa \<and> truthy pb then
             (case build_icebreakers_between_profiles (icebreaker_service sv) pa pb of
                Inl e \<Rightarrow> None
              | Inr qs \<Rightarrow> Some qs)
           else None)
      | _ \<Rightarrow> None)"

text \<open>The dict \<open>{a: sentence_a, b: sentence_b}\<close>: one entry when the two keys are equal.\<close>

definition summaries_dict ::
  "string \<Rightarrow> string option \<Rightarrow> string \<Rightarrow> string option \<Rightarrow> (string \<times> string option) list" where
  "summaries_dict a sentence_a b sentence_b =
     (if a = b then [(a, sentence_b)] else [(a, sentence_a), (b, sentence_b)])"

text \<open>Steps 5 to 7 and the final response, once both vectors are loaded.\<close>

definition score_and_enrich ::
  "services \<Rightarrow> store \<Rightarrow> string \<Rightarrow> string \<Rightarrow> real list \<Rightarrow> real list \<Rightarrow> s3op list \<times> response" where
  "score_and_enrich sv s a b v1 v2 =
     (case cosine v1 v2 of
        Inl e \<Rightarrow> ([], ServerError e)
      | Inr score \<Rightarrow>
          (case enrich_one sv s a of
             (la, Inl e) \<Rightarrow> (la, ServerError e)
           | (la, Inr (prof_a, sentence_a)) \<Rightarrow>
               (case enrich_one sv s b of
                  (lb, Inl e) \<Rightarrow> (la @ lb, ServerError e)
                | (lb, Inr (prof_b, sentence_b)) \<Rightarrow>
                    (la @ lb,
                     Success score (summaries_dict a sentence_a b sentence_b)
                       (make_icebreakers sv prof_a prof_b)))))"

text \<open>Steps 3 and 4: sanitize the two names, reject empty ones, load the two vectors.\<close>

definition compare_profiles :: "services \<Rightarrow> store \<Rightarrow> json \<Rightarrow> s3op list \<times> response" where
  "compare_profiles sv s payload =
     (case py_get payload ''profileA'' of
        Inl e \<Rightarrow> ([], ServerError e)
      | Inr ra \<Rightarrow>
     (case sanitize ra of
        Inl e \<Rightarrow> ([], ServerError e)
      | Inr a \<Rightarrow>
     (case py_get payload ''profileB'' of
        Inl e \<Rightarrow> ([], ServerError e)
      | Inr rb \<Rightarrow>
     (case sanitize rb of
        Inl e \<Rightarrow> ([], ServerError e)
      | Inr b \<Rightarrow>
          if a = [] \<or> b = [] then ([], BadRequest ''profileA and profileB are required'')
          else
            (case load_vector s a of
               (l1, Inl (FileNotFoundError k)) \<Rightarrow> (l1, NotFound (''Vector file not found: '' @ k))
             | (l1, Inl e) \<Rightarrow> (l1, ServerError e)
             | (l1, Inr v1) \<Rightarrow>
                 (case load_vector s b of
                    (l2, Inl (FileNotFoundError k)) \<Rightarrow>
                      (l1 @ l2, NotFound (''Vector file not found: '' @ k))
                  | (l2, Inl e) \<Rightarrow> (l1 @ l2, ServerError e)
                  | (l2, Inr v2) \<Rightarrow>
                      (case score_and_enrich sv s a b v1 v2 of
                         (l3, r) \<Rightarrow> (l1 @ l2 @ l3, r))))))))"

definition handler :: "services \<Rightarrow> store \<Rightarrow> event \<Rightarrow> s3op list \<times> response" where
  "handler sv s ev =
     (case decode_body sv ev of
        Inl e \<Rightarrow> ([], ServerError e)
      | Inr b \<Rightarrow>
          (case parse_body sv b of
             None \<Rightarrow> ([], BadRequest ''Invalid JSON body'')
           | Some payload \<Rightarrow> compare_profiles sv s payload))"

section \<open>Profile extraction (Database Manager/bedrock\_profile.py)\<close>

text \<open>\<open>text.find(c)\<close> and \<open>text.rfind(c)\<close> for one character: \<open>-1\<close> when absent.\<close>

fun find_from :: "char \<Rightarrow> string \<Rightarrow> int \<Rightarrow> int" where
  "find_from c [] i = -1"
| "find_from c (x # xs) i = (if x = c then i else find_from c xs (i + 1))"

definition str_find :: "string \<Rightarrow> char \<Rightarrow> int" where
  "str_find txt c = find_from c txt 0"

definition str_rfind :: "string \<Rightarrow> char \<Rightarrow> int" where
  "str_rfind txt c =
     (let r = find_from c (rev txt) 0 in if r < 0 then -1 else int (length txt) - 1 - r)"

text \<open>\<open>text[i:j]\<close> for non-negative \<open>i\<close> and \<open>j\<close>.\<close>

definition slice :: "string \<Rightarrow> int \<Rightarrow> int \<Rightarrow> string" where
  "slice txt i j = take (nat j - nat i) (drop (nat i) txt)"

text \<open>\<open>[b.get("text", "") for b in content_blocks if isinstance(b, dict) and "text" in b]\<close>\<close>

definition text_blocks :: "blocks \<Rightarrow> string list" where
  "text_blocks bs = concat (map (\<lambda>b. case b of None \<Rightarrow> [] | Some t \<Rightarrow> [t]) bs)"

text \<open>
  \<open>json.loads\<close> is a parameter: \<open>None\<close> when it raises.  The text-generation service is a
  parameter as well, applied to the transcript.
\<close>

definition parse_profile_text :: "(string \<Rightarrow> json option) \<Rightarrow> string \<Rightarrow> error + json" where
  "parse_profile_text loads_fn txt =
     (case loads_fn txt of
        Some j \<Rightarrow> Inr j
      | None \<Rightarrow>
          (let start = str_find txt CHR ''{''; fin = str_rfind txt CHR ''}''
           in if start \<ge> 0 \<and> fin \<ge> 0 then
                (case loads_fn (slice txt start (fin + 1)) of
                   Some j \<Rightarrow> Inr j
                 | None \<Rightarrow> Inl JSONDecodeError)
              else Inl JSONDecodeError))"

definition build_profile_from_transcript ::
  "(string \<Rightarrow> json option) \<Rightarrow> ('t \<Rightarrow> error + blocks) \<Rightarrow> 't \<Rightarrow> error + json" where
  "build_profile_from_transcript loads_fn svc transcript_text =
     (case svc transcript_text of
        Inl e \<Rightarrow> Inl e
      | Inr content_blocks \<Rightarrow>
          (case text_blocks content_blocks of
             [] \<Rightarrow> Inl (RuntimeError ''Bedrock (Nova) response missing text content.'')
           | t # _ \<Rightarrow> parse_profile_text loads_fn (strip t)))"

section \<open>Ingestion pipeline (Database Manager/lambda\_function.py)\<close>

text \<open>
  \<open>wait_for_s3_key\<close>: the clock advances by \<open>interval\<close> per unsuccessful poll, so the
  loop makes at most \<open>\<lceil>timeout / interval\<rceil>\<close> existence checks.
\<close>

fun poll :: "(string \<rightharpoonup> 'a) \<Rightarrow> string \<Rightarrow> nat \<Rightarrow> s3op list \<times> bool" where
  "poll m key 0 = ([], False)"
| "poll m key (Suc n) =
     (if m key \<noteq> None then ([Head key], True)
      else (case poll m key n of (l, r) \<Rightarrow> (Head key # l, r)))"

definition wait_for_s3_key ::
  "(string \<rightharpoonup> 'a) \<Rightarrow> string \<Rightarrow> nat \<Rightarrow> nat \<Rightarrow> s3op list \<times> bool" where
  "wait_for_s3_key m key timeout interval = poll m key ((timeout + interval - 1) div interval)"

text \<open>\<open>os.path.basename\<close> and the root part of \<open>os.path.splitext\<close>.\<close>

definition basename :: "string \<Rightarrow> string" where
  "basename p = rev (takeWhile (\<lambda>c. c \<noteq> CHR ''/'') (rev p))"

definition splitext_root :: "string \<Rightarrow> string" where
  "splitext_root b =
     (if CHR ''.'' \<in> set b then
        (let root = rev (tl (dropWhile (\<lambda>c. c \<noteq> CHR ''.'') (rev b)))
         in if list_all (\<lambda>c. c = CHR ''.'') root then b else root)
      else b)"

definition base_name :: "string \<Rightarrow> string" where
  "base_name key = splitext_root (basename key)"

text \<open>
  The two JSON layouts of a transcript artifact: a direct \<open>transcript\<close> field, or
  \<open>payload["results"]["transcripts"][0]["transcript"]\<close>.
\<close>

definition nested_transcript :: "json \<Rightarrow> error + json" where
  "nested_transcript payload =
     (case subscript_key payload ''results'' of
        Inl e \<Rightarrow> Inl e
      | Inr r \<Rightarrow>
     (case subscript_key r ''transcripts'' of
        Inl e \<Rightarrow> Inl e
      | Inr ts \<Rightarrow>
     (case subscript_idx ts 0 of
        Inl e \<Rightarrow> Inl e
      | Inr t0 \<Rightarrow> subscript_key t0 ''transcript'')))"

definition transcript_of_payload :: "json \<Rightarrow> error + json" where
  "transcript_of_payload payload =
     (if has_key payload ''transcript'' then subscript_key payload ''transcript''
      else nested_transcript payload)"

definition get_object :: "(string \<rightharpoonup> string) \<Rightarrow> string \<Rightarrow> error + string" where
  "get_object m key = (case m key of None \<Rightarrow> Inl (ClientError ''NoSuchKey'') | Some b \<Rightarrow> Inr b)"

text \<open>Step 1 of \<open>_load_transcript_text\<close>: the inline text of the job result.\<close>

definition inline_transcript :: "json \<Rightarrow> string option" where
  "inline_transcript vpm_result =
     (case vpm_result of
        JObj kvs \<Rightarrow>
          (case map_of kvs ''transcript'' of
             Some (JStr t) \<Rightarrow> if strip t \<noteq> [] then Some t else None
           | _ \<Rightarrow> None)
      | _ \<Rightarrow> None)"

text \<open>\<open>vpm_result.get("transcriptKey")\<close> when the job result is a dict.\<close>

definition transcript_key :: "json \<Rightarrow> json option" where
  "transcript_key vpm_result =
     (case vpm_result of JObj kvs \<Rightarrow> map_of kvs ''transcriptKey'' | _ \<Rightarrow> None)"

text \<open>
  Steps 3 and 4: the conventional keys \<open>transcripts/<base>.txt\<close> and
  \<open>transcripts/<base>.json\<close>.
\<close>

definition conventional_transcript ::
  "(string \<Rightarrow> json option) \<Rightarrow> (string \<rightharpoonup> string) \<Rightarrow> string \<Rightarrow> string
     \<Rightarrow> s3op list \<times> (error + json)" where
  "conventional_transcript loads_fn m bucket base =
     (let txt_key = ''transcripts/'' @ base @ ''.txt'';
          json_key = ''transcripts/'' @ base @ ''.json'';
          (l1, f1) = wait_for_s3_key m txt_key 5 1;
          (l2, f2) = (if f1 then ([], True) else wait_for_s3_key m json_key 120 3)
      in if \<not> f2 then
           (l1 @ l2, Inl (RuntimeError (''Transcript not found in time: s3://'' @ bucket @ ''/'' @ txt_key
                                          @ '' or '' @ json_key)))
         else
           (case get_object m txt_key of
              Inr b \<Rightarrow> (l1 @ l2 @ [Get txt_key], Inr (JStr b))
            | Inl e \<Rightarrow>
                (case get_object m json_key of
                   Inl e' \<Rightarrow> (l1 @ l2 @ [Get txt_key, Get json_key], Inl e')
                 | Inr b \<Rightarrow>
                     (l1 @ l2 @ [Get txt_key, Get json_key],
                      (case loads_fn b of
                         None \<Rightarrow> Inl JSONDecodeError
                       | Some payload \<Rightarrow> transcript_of_payload payload)))))"

text \<open>
  Step 2: the transcript key named by the job result.  \<open>None\<close> means that the step yields
  nothing and the search goes on with the conventional keys.
\<close>

definition keyed_transcript ::
  "(string \<Rightarrow> json option) \<Rightarrow> (string \<rightharpoonup> string) \<Rightarrow> string \<Rightarrow> s3op list \<times> (error + json) option" where
  "keyed_transcript loads_fn m tkey =
     (let (l, f) = wait_for_s3_key m tkey 60 2
      in case get_object m tkey of
           Inl e \<Rightarrow> (l @ [Get tkey], Some (Inl e))
         | Inr b \<Rightarrow>
             (let stripped = strip b
              in if stripped \<noteq> [] \<and> hd stripped \<notin> set ''{[''
                 then (l @ [Get tkey], Some (Inr (JStr stripped)))
                 else
                   (case loads_fn b of
                      None \<Rightarrow> (l @ [Get tkey], None)
                    | Some payload \<Rightarrow>
                        (case transcript_of_payload payload of
                           Inl e \<Rightarrow> (l @ [Get tkey], None)
                         | Inr t \<Rightarrow> (l @ [Get tkey], Some (Inr t))))))"

definition load_transcript_text ::
  "(string \<Rightarrow> json option) \<Rightarrow> (string \<rightharpoonup> string) \<Rightarrow> string \<Rightarrow> string \<Rightarrow> json
     \<Rightarrow> s3op list \<times> (error + json)" where
  "load_transcript_text loads_fn m bucket orig_key vpm_result =
     (let base = base_name orig_key
      in case inline_transcript vpm_result of
           Some t \<Rightarrow> ([], Inr (JStr t))
         | None \<Rightarrow>
             (case transcript_key vpm_result of
                Some (JStr tkey) \<Rightarrow>
                  (if tkey = [] then conventional_transcript loads_fn m bucket base
                   else
                     (case keyed_transcript loads_fn m tkey of
                        (l, Some r) \<Rightarrow> (l, r)
                      | (l, None) \<Rightarrow>
                          (case conventional_transcript loads_fn m bucket base of
                             (l', r) \<Rightarrow> (l @ l', r))))
              | Some v \<Rightarrow>
                  (if truthy v then ([], Inl ParamValidationError)
                   else conventional_transcript loads_fn m bucket base)
              | None \<Rightarrow> conventional_transcript loads_fn m bucket base))"

text \<open>\<open>_save_profile_and_vector\<close>: two unconditional writes, profile first.\<close>

definition save_profile_and_vector ::
  "store \<Rightarrow> string \<Rightarrow> json \<Rightarrow> real list \<Rightarrow> store \<times> s3op list \<times> (string \<times> string)" where
  "save_profile_and_vector s profile_name profile vector =
     (let base_folder = ''profiles/'' @ profile_name @ ''/'';
          pkey = base_folder @ ''profile.json'';
          s1 = s\<lparr>docs := (docs s)(pkey \<mapsto> profile)\<rparr>;
          vkey = base_folder @ ''vector.json'';
          s2 = s1\<lparr>vectors := (vectors s1)(vkey \<mapsto> vector)\<rparr>
      in (s2, [Put pkey, Put vkey], (pkey, vkey)))"

text \<open>
  A decoded JSON profile as the dictionary \<open>_flatten_profile\<close> expects: defined when the
  value is a dict whose three profile fields, where present, are arrays of strings.
\<close>

fun str_list :: "json list \<Rightarrow> string list option" where
  "str_list [] = Some []"
| "str_list (JStr t # vs) = (case str_list vs of None \<Rightarrow> None | Some ts \<Rightarrow> Some (t # ts))"
| "str_list (v # vs) = None"

fun field_ok :: "json option \<Rightarrow> bool" where
  "field_ok None = True"
| "field_ok (Some (JArr vs)) = (str_list vs \<noteq> None)"
| "field_ok (Some v) = False"

definition profile_of :: "json \<Rightarrow> profile option" where
  "profile_of j =
     (case j of
        JObj kvs \<Rightarrow>
          (if field_ok (map_of kvs ''hobbies'') \<and> field_ok (map_of kvs ''personality traits'')
              \<and> field_ok (map_of kvs ''traits looking for '')
           then Some (\<lambda>k. case map_of kvs k of Some (JArr vs) \<Rightarrow> str_list vs | _ \<Rightarrow> None)
           else None)
      | _ \<Rightarrow> None)"

text \<open>
  The collaborators of one ingestion run: \<open>engine.run_vpm\<close> (it may write transcript
  artifacts and returns the job result), \<open>json.loads\<close>, the text-generation service behind
  \<open>build_profile_from_transcript\<close> and the embedding service behind \<open>embed_text\<close>.
  \<open>embed_other\<close> is the outcome of \<open>embed_profile\<close> on a value that is not a profile
  dictionary of string lists.
\<close>

record ingest_services =
  run_vpm :: "store \<Rightarrow> string \<Rightarrow> string \<Rightarrow> store \<times> (error + json)"
  ingest_loads :: "string \<Rightarrow> json option"
  extract_service :: "json \<Rightarrow> error + blocks"
  embed_text :: "string \<Rightarrow> error + real list"
  embed_other :: "json \<Rightarrow> error + real list"

record ingest_result =
  res_bucket :: string
  res_profile_name :: string
  res_profile_key :: string
  res_vector_key :: string

text \<open>
  \<open>lambda_handler\<close> on the bucket and the URL-decoded key of the first event record.  The
  result is the store after the run and either the exception that ended it or the body of
  the 200 response.
\<close>

definition lambda_handler ::
  "ingest_services \<Rightarrow> store \<Rightarrow> string \<Rightarrow> string \<Rightarrow> store \<times> (error + ingest_result)" where
  "lambda_handler sv s bucket key =
     (let profile_name = base_name key
      in case run_vpm sv s bucket key of
           (s1, Inl e) \<Rightarrow> (s1, Inl e)
         | (s1, Inr vpm_result) \<Rightarrow>
        (case load_transcript_text (ingest_loads sv) (texts s1) bucket key vpm_result of
           (l, Inl e) \<Rightarrow> (s1, Inl e)
         | (l, Inr transcript_text) \<Rightarrow>
        (case py_len transcript_text of
           Inl e \<Rightarrow> (s1, Inl e)
         | Inr n \<Rightarrow>
        (case build_profile_from_transcript (ingest_loads sv) (extract_service sv) transcript_text of
           Inl e \<Rightarrow> (s1, Inl e)
         | Inr profile \<Rightarrow>
        (case (case profile_of profile of
                 Some p \<Rightarrow> embed_profile (embed_text sv) p
               | None \<Rightarrow> embed_other sv profile) of
           Inl e \<Rightarrow> (s1, Inl e)
         | Inr vector \<Rightarrow>
        (case save_profile_and_vector s1 profile_name profile vector of
           (s2, l, (pkey, vkey)) \<Rightarrow>
             (s2, Inr \<lparr>res_bucket = bucket, res_profile_name = profile_name,
                       res_profile_key = pkey, res_vector_key = vkey\<rparr>)))))))"

section \<open>Names used by the statements below\<close>

text \<open>The three keys \<open>_flatten_profile\<close> reads.\<close>

definition profile_fields :: "string list" where
  "profile_fields = [''hobbies'', ''personality traits'', ''traits looking for '']"

text \<open>
  A reply of the text-generation service that carries one numbered question, the second
  example question of the icebreaker prompt itself.
\<close>

definition long_question :: string where
  "long_question =
     ''2. If you could plan a weekend trip together, would it be somewhere sporty or somewhere musical?''"

definition long_reply_service :: "json \<Rightarrow> json \<Rightarrow> error + blocks" where
  "long_reply_service profileA profileB = Inr [Some long_question]"

text \<open>
  Four documents, and a stand-in for \<open>json.loads\<close> that decodes them and \<open>{}\<close> and
  raises on every other text; it serves to run the functions that take the decoder as a
  parameter.
\<close>

definition sample_request_body :: string where
  \<open>sample_request_body = ''{"profileA": "Alice", "profileB": " "}''\<close>

definition sample_pair_body :: string where
  \<open>sample_pair_body = ''{"profileA": "alice", "profileB": "bob"}''\<close>

definition sample_same_body :: string where
  \<open>sample_same_body = ''{"profileA": "Alice", "profileB": "Alice"}''\<close>

definition sample_transcript_body :: string where
  \<open>sample_transcript_body = ''{"results": {"transcripts": [{"transcript": "i like chess"}]}}''\<close>

definition sample_loads :: "string \<Rightarrow> json option" where
  "sample_loads t =
     (if t = ''{}'' then Some (JObj [])
      else if t = sample_request_body
        then Some (JObj [(''profileA'', JStr ''Alice''), (''profileB'', JStr '' '')])
      else if t = sample_pair_body
        then Some (JObj [(''profileA'', JStr ''alice''), (''profileB'', JStr ''bob'')])
      else if t = sample_same_body
        then Some (JObj [(''profileA'', JStr ''Alice''), (''profileB'', JStr ''Alice'')])
      else if t = sample_transcript_body
        then Some (JObj [(''results'',
               JObj [(''transcripts'', JArr [JObj [(''transcript'', JStr ''i like chess'')]])])])
      else None)"

text \<open>
  A similarity service whose summary generation is throttled, and a bucket that holds the
  vectors of \<open>alice\<close> and \<open>bob\<close> and the profile of \<open>alice\<close>.
\<close>

definition throttled_summary_service :: "json \<Rightarrow> error + blocks" where
  "throttled_summary_service profile = Inl (ServiceError ''ThrottlingException'')"

definition no_b64decode :: "string \<Rightarrow> string option" where
  "no_b64decode b = None"

definition sample_services :: services where
  "sample_services =
     \<lparr>loads = sample_loads, b64decode = no_b64decode,
      summary_service = throttled_summary_service, icebreaker_service = long_reply_service\<rparr>"

definition sample_store :: store where
  "sample_store =
     \<lparr>texts = map_of [],
      docs = map_of [(''profiles/alice/profile.json'', JObj [(''hobbies'', JArr [JStr ''chess''])])],
      vectors = map_of [(''profiles/alice/vector.json'', [1, 0]),
                        (''profiles/bob/vector.json'', [0, 1])]\<rparr>"

text \<open>
  An ingestion run on an empty bucket: the transcription yields an inline transcript, the
  extraction replies \<open>{}\<close> and the embedding service returns a two-dimensional vector.
\<close>

definition empty_store :: store where
  "empty_store = \<lparr>texts = map_of [], docs = map_of [], vectors = map_of []\<rparr>"

definition inline_run_vpm :: "store \<Rightarrow> string \<Rightarrow> string \<Rightarrow> store \<times> (error + json)" where
  "inline_run_vpm s bucket key = (s, Inr (JObj [(''transcript'', JStr ''i like chess'')]))"

definition empty_extract_service :: "json \<Rightarrow> error + blocks" where
  "empty_extract_service transcript = Inr [Some ''{}'']"

definition unit_embed_text :: "string \<Rightarrow> error + real list" where
  "unit_embed_text t = Inr [1, 0]"

definition no_embed_other :: "json \<Rightarrow> error + real list" where
  "no_embed_other j = Inl TypeError"

definition sample_ingest :: ingest_services where
  "sample_ingest =
     \<lparr>run_vpm = inline_run_vpm, ingest_loads = sample_loads,
      extract_service = empty_extract_service, embed_text = unit_embed_text,
      embed_other = no_embed_other\<rparr>"

section \<open>Flattening a profile\<close>

lemmas text_simps = strip_def lstrip_def rstrip_def is_space_def lower_def lower_char_def

lemma join_nonempty: "xs \<noteq> [] \<Longrightarrow> hd xs \<noteq> [] \<Longrightarrow> join sep xs \<noteq> []"
  by (induction sep xs rule: join.induct) auto

lemma flatten_parts_hd: "flatten_parts p \<noteq> [] \<Longrightarrow> hd (flatten_parts p) \<noteq> []"
  by (auto simp: flatten_parts_def Let_def)

lemma flatten_profile_empty_iff: "flatten_profile p = [] \<longleftrightarrow> flatten_parts p = []"
  using join_nonempty [OF _ flatten_parts_hd, of p "'' | ''"]
  by (auto simp: flatten_profile_def Let_def)

lemma clean_entries_blank: "(\<forall>s \<in> set xs. strip s = []) \<Longrightarrow> clean_entries xs = []"
  by (simp add: clean_entries_def filter_empty_conv)

text \<open>
  C3, as stated, fails: \<open>_flatten_profile\<close> returns the empty string, not the sentinel, for
  a profile without entries.
\<close>

theorem C3_counterexample:
  "flatten_profile (map_of [(''hobbies'', [])]) = []
   \<and> flatten_profile (map_of [(''hobbies'', [])]) \<noteq> sentinel"
  by (simp add: flatten_profile_def flatten_parts_def get_list_def clean_entries_def sentinel_def)

text \<open>
  C3, amended: for every profile whose three category lists are empty or hold only blank
  entries, \<open>_flatten_profile\<close> returns the empty string and \<open>embed_profile\<close> replaces it by
  the fixed sentinel before calling the embedding service; for every profile whatsoever the
  text handed to the embedding service is non-empty.
\<close>

theorem C3_sentinel:
  assumes "\<forall>k \<in> set profile_fields. \<forall>s \<in> set (get_list p k). strip s = []"
  shows "flatten_profile p = [] \<and> embed_input p = sentinel
         \<and> embed_profile f p = f sentinel \<and> embed_input q \<noteq> []"
proof -
  from assms have "clean_entries (get_list p ''hobbies'') = []"
    "clean_entries (get_list p ''personality traits'') = []"
    "clean_entries (get_list p ''traits looking for '') = []"
    by (simp_all add: profile_fields_def clean_entries_blank)
  then have fp: "flatten_parts p = []" by (simp add: flatten_parts_def)
  then have e: "flatten_profile p = []" by (simp add: flatten_profile_empty_iff)
  have "embed_input q \<noteq> []" by (simp add: embed_input_def Let_def sentinel_def)
  with e show ?thesis by (simp add: embed_input_def embed_profile_def)
qed

theorem C3_sentinel_witness:
  "flatten_profile (map_of [(''hobbies'', ['' '', '''']), (''personality traits'', [])]) = []
   \<and> embed_input (map_of [(''hobbies'', ['' '', '''']), (''personality traits'', [])]) = sentinel"
proof -
  have h: "\<forall>k \<in> set profile_fields.
             \<forall>s \<in> set (get_list (map_of [(''hobbies'', ['' '', '''']),
                                           (''personality traits'', [])]) k). strip s = []"
    by (simp add: profile_fields_def get_list_def strip_def lstrip_def rstrip_def is_space_def)
  from C3_sentinel [OF h, of "\<lambda>t. Inr [real (length t)] :: error + real list"]
  show ?thesis by blast
qed

text \<open>
  C10: the flattened text depends on the profile only through the keys \<open>hobbies\<close>,
  \<open>personality traits\<close> and \<open>traits looking for \<close> (with the trailing space); entries
  stored under \<open>traits looking for\<close> without the trailing space do not reach it.
\<close>

theorem C10_keys:
  "((\<forall>k \<in> set profile_fields. p k = q k) \<longrightarrow> flatten_profile p = flatten_profile q)
   \<and> flatten_profile (p(''traits looking for'' \<mapsto> xs)) = flatten_profile p"
  by (simp add: flatten_profile_def flatten_parts_def get_list_def profile_fields_def)

theorem C10_keys_witness:
  "flatten_profile (map_of [(''hobbies'', [''chess'']), (''traits looking for'', [''kind''])])
     = ''hobbies: chess''
   \<and> flatten_profile (map_of [(''traits looking for '', [''kind'']), (''hobbies'', [''chess''])])
     = ''hobbies: chess | looking_for: kind''"
proof -
  have h: "\<forall>k \<in> set profile_fields.
             map_of [(''hobbies'', [''chess'']), (''traits looking for'', [''kind''])] k
             = map_of [(''hobbies'', [''chess''])] k"
    by (simp add: profile_fields_def)
  have a: "flatten_profile (map_of [(''hobbies'', [''chess''])]) = ''hobbies: chess''"
    by (simp add: flatten_profile_def flatten_parts_def get_list_def clean_entries_def
        strip_def lstrip_def rstrip_def is_space_def)
  have b: "flatten_profile (map_of [(''traits looking for '', [''kind'']), (''hobbies'', [''chess''])])
     = ''hobbies: chess | looking_for: kind''"
    by (simp add: flatten_profile_def flatten_parts_def get_list_def clean_entries_def
        strip_def lstrip_def rstrip_def is_space_def)
  from C10_keys [of "map_of [(''hobbies'', [''chess'']), (''traits looking for'', [''kind''])]"
      "map_of [(''hobbies'', [''chess''])]"] h a b
  show ?thesis by simp
qed

section \<open>Cosine similarity\<close>

lemma norm2_zero_iff: "norm2 x = 0 \<longleftrightarrow> (\<forall>a \<in> set x. a = 0)"
proof -
  have "sum_list (map (\<lambda>px. px * px) x) = 0 \<longleftrightarrow> (\<forall>a \<in> set x. a = 0)"
  proof (induction x)
    case Nil
    show ?case by simp
  next
    case (Cons a x)
    have "0 \<le> sum_list (map (\<lambda>px. px * px) x)"
      by (rule sum_list_nonneg) auto
    moreover have "0 \<le> a * a" by simp
    ultimately have "a * a + sum_list (map (\<lambda>px. px * px) x) = 0
                 \<longleftrightarrow> a * a = 0 \<and> sum_list (map (\<lambda>px. px * px) x) = 0"
      by (simp add: add_nonneg_eq_0_iff)
    with Cons show ?case by simp
  qed
  then show ?thesis by (simp add: norm2_def)
qed

text \<open>
  C6: when the L2 norm of either vector is zero, in particular when a vector holds only
  zeros, \<open>_cosine\<close> returns exactly \<open>0.0\<close>: the division is not reached and nothing is raised.
\<close>

theorem C6_zero_norm:
  "(norm2 x = 0 \<or> norm2 y = 0 \<longrightarrow> cosine x y = Inr 0)
   \<and> ((\<forall>a \<in> set x. a = 0) \<longrightarrow> cosine x y = Inr 0 \<and> cosine y x = Inr 0)"
  by (auto simp: cosine_def Let_def norm2_zero_iff)

theorem C6_zero_norm_witness:
  "cosine [0, 0] [3, 4] = Inr 0 \<and> cosine [3, 4] [0, 0] = Inr 0 \<and> cosine [] [1] = Inr 0"
  using C6_zero_norm [of "[0, 0]" "[3, 4]"] C6_zero_norm [of "[]" "[1]"]
  by simp

lemma dot_nth: "dot x y = (\<Sum>i < min (length x) (length y). x ! i * y ! i)"
proof -
  have "dot x y = (\<Sum>i < length (zip x y). (\<lambda>(px, py). px * py) (zip x y ! i))"
    unfolding dot_def by (simp add: sum_list_sum_nth atLeast0LessThan)
  also have "\<dots> = (\<Sum>i < min (length x) (length y). x ! i * y ! i)"
    by (rule sum.cong) auto
  finally show ?thesis .
qed

lemma norm2_nth: "norm2 x = sqrt (\<Sum>i < length x. x ! i * x ! i)"
  unfolding norm2_def by (simp add: sum_list_sum_nth atLeast0LessThan)

text \<open>
  C9: \<open>_cosine\<close> returns a number for every pair of vectors, also of different lengths:
  the dot product runs over the index pairs below the shorter length, each norm over the
  whole of its vector.
\<close>

theorem C9_total:
  "cosine x y =
     Inr (if norm2 x = 0 \<or> norm2 y = 0 then 0
          else (\<Sum>i < min (length x) (length y). x ! i * y ! i)
               / (sqrt (\<Sum>i < length x. x ! i * x ! i) * sqrt (\<Sum>i < length y. y ! i * y ! i)))"
  by (simp add: cosine_def Let_def py_divide_def dot_nth [symmetric] norm2_nth [symmetric])

theorem C9_total_witness:
  "cosine [1, 0, 0] [0, 1] = Inr 0 \<and> cosine [1] [1, 0, 0] = Inr 1"
  using C9_total [of "[1, 0, 0]" "[0, 1]"] C9_total [of "[1]" "[1, 0, 0]"]
  by (simp add: norm2_def lessThan_Suc eval_nat_numeral)

section \<open>Icebreakers\<close>

lemma pick_questions_length: "length (pick_questions txt) \<le> 2"
  by (simp add: pick_questions_def Let_def)

lemma pick_questions_subset: "set (pick_questions txt) \<subseteq> set (icebreaker_lines txt)"
proof -
  have "set (take 2 (filter looks_like_question (icebreaker_lines txt))) \<subseteq> set (icebreaker_lines txt)"
    using set_take_subset [of 2 "filter looks_like_question (icebreaker_lines txt)"] by auto
  moreover have "set (take 2 (take 2 (icebreaker_lines txt))) \<subseteq> set (icebreaker_lines txt)"
    using set_take_subset [of 2 "icebreaker_lines txt"] by auto
  ultimately show ?thesis by (simp add: pick_questions_def Let_def)
qed

lemma icebreaker_lines_mem:
  "q \<in> set (icebreaker_lines txt) \<Longrightarrow> q \<noteq> [] \<and> q \<in> strip ` set (split_on CHR 0x0A txt)"
  by (auto simp: icebreaker_lines_def)

text \<open>
  C8, as stated, fails: a reply with one numbered question of 96 characters comes back
  unshortened.
\<close>

theorem C8_counterexample:
  "build_icebreakers_between_profiles long_reply_service (JObj []) (JObj []) = Inr [long_question]
   \<and> 70 < length long_question"
  by (simp add: build_icebreakers_between_profiles_def long_reply_service_def blocks_text_def
      pick_questions_def icebreaker_lines_def looks_like_question_def long_question_def
      strip_def lstrip_def rstrip_def is_space_def is_digit_def startswith_def)

text \<open>
  C8, amended: for every reply of the generation service the icebreaker builder returns a
  list of at most 2 strings, each of them a non-empty, stripped line of the reply text; no
  bound on their length is enforced.
\<close>

theorem C8_at_most_two:
  assumes "svc profileA profileB = Inr bs"
  shows "\<exists>qs. build_icebreakers_between_profiles svc profileA profileB = Inr qs
           \<and> length qs \<le> 2
           \<and> (\<forall>q \<in> set qs. q \<noteq> [] \<and> q \<in> strip ` set (split_on CHR 0x0A (blocks_text bs)))"
  using assms pick_questions_subset [of "blocks_text bs"]
  by (auto simp: build_icebreakers_between_profiles_def pick_questions_length
      dest: icebreaker_lines_mem)

theorem C8_at_most_two_witness:
  "\<exists>qs. build_icebreakers_between_profiles long_reply_service (JObj []) (JObj []) = Inr qs
         \<and> length qs \<le> 2"
proof -
  have h: "long_reply_service (JObj []) (JObj []) = Inr [Some long_question]"
    by (simp add: long_reply_service_def)
  from C8_at_most_two [of long_reply_service "JObj []" "JObj []" "[Some long_question]"] h
  show ?thesis by blast
qed

section \<open>Profile extraction\<close>

lemma find_from_eq:
  "find_from c xs i = (if c \<in> set xs then i + int (length (takeWhile (\<lambda>x. x \<noteq> c) xs)) else -1)"
  by (induction xs arbitrary: i) auto

lemma str_find_eq:
  "str_find txt c = (if c \<in> set txt then int (length (takeWhile (\<lambda>x. x \<noteq> c) txt)) else -1)"
  by (simp add: str_find_def find_from_eq)

lemma str_rfind_eq:
  "str_rfind txt c =
     (if c \<in> set txt then int (length txt) - 1 - int (length (takeWhile (\<lambda>x. x \<noteq> c) (rev txt)))
      else -1)"
  by (simp add: str_rfind_def find_from_eq Let_def)

lemma slice_first_to_last:
  assumes "0 \<le> str_find txt CHR ''{''" and "0 \<le> str_rfind txt CHR ''}''"
    and "str_find txt CHR ''{'' \<le> str_rfind txt CHR ''}''"
  shows "\<exists>pre post. txt = pre @ slice txt (str_find txt CHR ''{'') (str_rfind txt CHR ''}'' + 1) @ post
           \<and> CHR ''{'' \<notin> set pre \<and> CHR ''}'' \<notin> set post
           \<and> hd (slice txt (str_find txt CHR ''{'') (str_rfind txt CHR ''}'' + 1)) = CHR ''{''
           \<and> last (slice txt (str_find txt CHR ''{'') (str_rfind txt CHR ''}'' + 1)) = CHR ''}''"
proof -
  let ?P = "\<lambda>x. x \<noteq> CHR ''{''" and ?Q = "\<lambda>x. x \<noteq> CHR ''}''"
  define pre where "pre = takeWhile ?P txt"
  define post where "post = rev (takeWhile ?Q (rev txt))"
  define front where "front = rev (dropWhile ?Q (rev txt))"
  define n where "n = length pre"
  define m where "m = length post"
  define sub where "sub = slice txt (str_find txt CHR ''{'') (str_rfind txt CHR ''}'' + 1)"
  from assms(1) have inl: "CHR ''{'' \<in> set txt" by (auto simp: str_find_eq split: if_splits)
  from assms(2) have inr: "CHR ''}'' \<in> set txt" by (auto simp: str_rfind_eq split: if_splits)
  have s: "str_find txt CHR ''{'' = int n" using inl by (simp add: str_find_eq n_def pre_def)
  have e: "str_rfind txt CHR ''}'' = int (length txt) - 1 - int m"
    using inr by (simp add: str_rfind_eq m_def post_def)
  have split2: "txt = front @ post"
    using takeWhile_dropWhile_id [of "\<lambda>x. x \<noteq> CHR ''}''" "rev txt"]
    by (metis front_def post_def rev_append rev_rev_ident)
  have front_ne: "front \<noteq> []" using inr by (auto simp: front_def)
  have last_front: "last front = CHR ''}''"
    using front_ne hd_dropWhile [of "\<lambda>x. x \<noteq> CHR ''}''" "rev txt"] by (simp add: front_def last_rev)
  have lf: "length front = length txt - m" using split2 m_def
    by (metis add_diff_cancel_right' length_append)
  have mlt: "m < length txt" using split2 front_ne m_def
    by (metis length_append length_greater_0_conv less_add_same_cancel2)
  have front_take: "front = take (length txt - m) txt" using split2 lf
    by (metis append_eq_conv_conj)
  have pre_take: "pre = take n txt" unfolding n_def pre_def by (rule takeWhile_eq_take)
  have rest: "drop n txt = dropWhile ?P txt" unfolding n_def pre_def by (rule dropWhile_eq_drop [symmetric])
  have rest_ne: "drop n txt \<noteq> []" using inl by (auto simp: rest)
  have hd_rest: "hd (drop n txt) = CHR ''{''"
    using hd_dropWhile [of "\<lambda>x. x \<noteq> CHR ''{''" "txt"] rest rest_ne by simp
  from assms(3) s e have nle: "n + m + 1 \<le> length txt" using mlt by linarith
  have sub_eq: "sub = take (length txt - m - n) (drop n txt)"
    using s e mlt nle by (simp add: sub_def slice_def nat_diff_distrib nat_add_distrib)
  have front_split: "front = pre @ sub"
  proof -
    have "take (length txt - m) txt = take (n + (length txt - m - n)) txt" using nle by simp
    also have "\<dots> = take n txt @ take (length txt - m - n) (drop n txt)" by (rule take_add)
    finally show ?thesis by (simp add: front_take [symmetric] pre_take [symmetric] sub_eq)
  qed
  have sub_ne: "sub \<noteq> []" using nle rest_ne by (simp add: sub_eq)
  have "hd sub = CHR ''{''" using hd_rest nle rest_ne by (simp add: sub_eq)
  moreover have "last sub = CHR ''}''" using last_front front_split sub_ne by simp
  moreover have "txt = pre @ sub @ post" using split2 front_split by simp
  moreover have "CHR ''{'' \<notin> set pre" unfolding pre_def by (auto dest: set_takeWhileD)
  moreover have "CHR ''}'' \<notin> set post" unfolding post_def by (auto dest: set_takeWhileD)
  ultimately show ?thesis unfolding sub_def by blast
qed


text \<open>
  C5: profile extraction parses the stripped text of the first text block; when that
  fails it parses the substring from the first opening brace to the last closing brace;
  when both parses fail, or a brace is missing, the parse error is raised.  No profile is
  ever returned in place of the error.
\<close>

theorem C5_parse_policy:
  "(svc transcript_text = Inr bs \<and> text_blocks bs = t # ts \<longrightarrow>
      (let txt = strip t;
           start = str_find txt CHR ''{'';
           fin = str_rfind txt CHR ''}'';
           sub = slice txt start (fin + 1);
           r = build_profile_from_transcript loads_fn svc transcript_text
       in (loads_fn txt = Some j \<longrightarrow> r = Inr j)
        \<and> (loads_fn txt = None \<and> 0 \<le> start \<and> 0 \<le> fin \<and> loads_fn sub = Some j \<longrightarrow> r = Inr j)
        \<and> (loads_fn txt = None \<and> (start < 0 \<or> fin < 0 \<or> loads_fn sub = None)
              \<longrightarrow> r = Inl JSONDecodeError)))
   \<and> (svc transcript_text = Inr bs \<and> text_blocks bs = [] \<longrightarrow>
        build_profile_from_transcript loads_fn svc transcript_text
          = Inl (RuntimeError ''Bedrock (Nova) response missing text content.''))
   \<and> (svc transcript_text = Inl e \<longrightarrow>
        build_profile_from_transcript loads_fn svc transcript_text = Inl e)"
  by (auto simp: build_profile_from_transcript_def parse_profile_text_def Let_def)

theorem C5_parse_policy_witness:
  "build_profile_from_transcript sample_loads (\<lambda>t. Inr [None, Some '' Here you go: {} enjoy ''])
     ''my hobbies'' = Inr (JObj [])
   \<and> build_profile_from_transcript sample_loads (\<lambda>t. Inr [Some ''{oops}''])
     ''my hobbies'' = Inl JSONDecodeError"
proof -
  have tb: "text_blocks [None, Some '' Here you go: {} enjoy ''] = ['' Here you go: {} enjoy '']"
    "text_blocks [Some ''{oops}''] = [''{oops}'']"
    by (simp_all add: text_blocks_def)
  have st: "strip '' Here you go: {} enjoy '' = ''Here you go: {} enjoy''"
    "strip ''{oops}'' = ''{oops}''"
    by (simp_all add: strip_def lstrip_def rstrip_def is_space_def)
  have fi: "str_find ''Here you go: {} enjoy'' CHR ''{'' = 13"
    "str_rfind ''Here you go: {} enjoy'' CHR ''}'' = 14"
    "str_find ''{oops}'' CHR ''{'' = 0" "str_rfind ''{oops}'' CHR ''}'' = 5"
    by (simp_all add: str_find_def str_rfind_def)
  have sl: "slice ''Here you go: {} enjoy'' 13 15 = ''{}''" "slice ''{oops}'' 0 6 = ''{oops}''"
    by (simp_all add: slice_def)
  have lo: "sample_loads ''Here you go: {} enjoy'' = None" "sample_loads ''{}'' = Some (JObj [])"
    "sample_loads ''{oops}'' = None"
    by (simp_all add: sample_loads_def sample_request_body_def sample_pair_body_def
        sample_same_body_def sample_transcript_body_def)
  from C5_parse_policy [of "\<lambda>t. Inr [None, Some '' Here you go: {} enjoy '']" "''my hobbies''"
      "[None, Some '' Here you go: {} enjoy '']" "'' Here you go: {} enjoy ''" "[]"
      sample_loads "JObj []" TypeError]
    C5_parse_policy [of "\<lambda>t. Inr [Some ''{oops}'']" "''my hobbies''"
      "[Some ''{oops}'']" "''{oops}''" "[]" sample_loads "JObj []" TypeError]
  show ?thesis by (simp add: tb st sl fi lo Let_def)
qed

section \<open>Transcript resolution\<close>

lemma poll_absent: "m key = None \<Longrightarrow> poll m key n = (replicate n (Head key), False)"
  by (induction n) auto

lemma poll_present: "m key = Some b \<Longrightarrow> poll m key (Suc n) = ([Head key], True)"
  by simp

lemma wait_txt_absent:
  "m key = None \<Longrightarrow> wait_for_s3_key m key 5 1 = (replicate 5 (Head key), False)"
  by (simp add: wait_for_s3_key_def poll_absent)

lemma wait_json_present:
  "m key = Some b \<Longrightarrow> wait_for_s3_key m key 120 3 = ([Head key], True)"
proof -
  have "(120 + 3 - 1) div 3 = Suc 39" by simp
  then show "m key = Some b \<Longrightarrow> ?thesis"
    unfolding wait_for_s3_key_def by (simp only: poll_present)
qed

text \<open>
  C4, as stated, fails for an inline transcript that is not empty but blank: it is not
  returned, and the conventional text key is consulted and read instead.
\<close>

theorem C4_counterexample:
  "load_transcript_text sample_loads (map_of [(''transcripts/alice.txt'', ''i like chess'')])
      ''bond-audio-uploads'' ''uploads/alice.mp3'' (JObj [(''transcript'', JStr '' '')])
     = ([Head ''transcripts/alice.txt'', Get ''transcripts/alice.txt''], Inr (JStr ''i like chess''))"
proof -
  have bn: "base_name ''uploads/alice.mp3'' = ''alice''"
    by (simp add: base_name_def basename_def splitext_root_def)
  have w: "wait_for_s3_key (map_of [(''transcripts/alice.txt'', ''i like chess'')])
             ''transcripts/alice.txt'' 5 1 = ([Head ''transcripts/alice.txt''], True)"
    by (simp add: wait_for_s3_key_def eval_nat_numeral)
  have c: "conventional_transcript sample_loads (map_of [(''transcripts/alice.txt'', ''i like chess'')])
             ''bond-audio-uploads'' ''alice''
           = ([Head ''transcripts/alice.txt'', Get ''transcripts/alice.txt''], Inr (JStr ''i like chess''))"
    using w by (simp add: conventional_transcript_def get_object_def Let_def)
  show ?thesis
    using c by (simp add: load_transcript_text_def inline_transcript_def transcript_key_def bn text_simps)
qed

text \<open>
  C4, amended: transcript resolution takes the first source that yields text.  A job result
  with an inline transcript that is non-empty after stripping whitespace gives that text,
  unchanged, and the store is not consulted at all, whatever transcript key the result names
  and whatever the bucket holds.  When no inline text and no transcript key are given and
  only \<open>transcripts/<base>.json\<close> exists, holding the nested layout, the text is read at
  \<open>results.transcripts[0].transcript\<close>.
\<close>

theorem C4_resolution_order:
  "(vpm_result = JObj kvs \<and> map_of kvs ''transcript'' = Some (JStr t) \<and> strip t \<noteq> [] \<longrightarrow>
      load_transcript_text loads_fn m bucket orig_key vpm_result = ([], Inr (JStr t)))
   \<and> (inline_transcript vpm_result = None \<and> transcript_key vpm_result = None
        \<and> m (''transcripts/'' @ base_name orig_key @ ''.txt'') = None
        \<and> m (''transcripts/'' @ base_name orig_key @ ''.json'') = Some b
        \<and> loads_fn b = Some payload \<and> \<not> has_key payload ''transcript''
        \<and> subscript_key payload ''results'' = Inr results
        \<and> subscript_key results ''transcripts'' = Inr transcripts
        \<and> subscript_idx transcripts 0 = Inr first
        \<and> subscript_key first ''transcript'' = Inr tr \<longrightarrow>
      load_transcript_text loads_fn m bucket orig_key vpm_result =
        (replicate 5 (Head (''transcripts/'' @ base_name orig_key @ ''.txt''))
           @ [Head (''transcripts/'' @ base_name orig_key @ ''.json''),
              Get (''transcripts/'' @ base_name orig_key @ ''.txt''),
              Get (''transcripts/'' @ base_name orig_key @ ''.json'')],
         Inr tr))"
proof (intro conjI impI)
  assume "vpm_result = JObj kvs \<and> map_of kvs ''transcript'' = Some (JStr t) \<and> strip t \<noteq> []"
  then show "load_transcript_text loads_fn m bucket orig_key vpm_result = ([], Inr (JStr t))"
    by (simp add: load_transcript_text_def inline_transcript_def)
next
  let ?tk = "''transcripts/'' @ base_name orig_key @ ''.txt''"
  let ?jk = "''transcripts/'' @ base_name orig_key @ ''.json''"
  assume a: "inline_transcript vpm_result = None \<and> transcript_key vpm_result = None
        \<and> m ?tk = None \<and> m ?jk = Some b
        \<and> loads_fn b = Some payload \<and> \<not> has_key payload ''transcript''
        \<and> subscript_key payload ''results'' = Inr results
        \<and> subscript_key results ''transcripts'' = Inr transcripts
        \<and> subscript_idx transcripts 0 = Inr first
        \<and> subscript_key first ''transcript'' = Inr tr"
  then have tk: "m ?tk = None" and jk: "m ?jk = Some b" by blast+
  from tk have w1: "wait_for_s3_key m ?tk 5 1 = (replicate 5 (Head ?tk), False)"
    by (rule wait_txt_absent)
  from jk have w2: "wait_for_s3_key m ?jk 120 3 = ([Head ?jk], True)"
    by (rule wait_json_present)
  from a have tp: "transcript_of_payload payload = Inr tr"
    by (simp add: transcript_of_payload_def nested_transcript_def)
  from a have lo: "loads_fn b = Some payload" by blast
  have g1: "get_object m ?tk = Inl (ClientError ''NoSuchKey'')"
    and g2: "get_object m ?jk = Inr b"
    using tk jk by (simp_all only: get_object_def option.case)
  have "conventional_transcript loads_fn m bucket (base_name orig_key) =
      (replicate 5 (Head ?tk) @ [Head ?jk, Get ?tk, Get ?jk], Inr tr)"
    unfolding conventional_transcript_def Let_def w1 w2 g1 g2
    by (simp add: lo tp)
  with a show "load_transcript_text loads_fn m bucket orig_key vpm_result =
        (replicate 5 (Head ?tk) @ [Head ?jk, Get ?tk, Get ?jk], Inr tr)"
    by (simp add: load_transcript_text_def)
qed


theorem C4_resolution_order_witness:
  "load_transcript_text sample_loads (map_of [(''transcripts/alice.json'', sample_transcript_body)])
      ''bond-audio-uploads'' ''uploads/alice.mp3''
      (JObj [(''transcript'', JStr ''i like tea''), (''transcriptKey'', JStr ''transcripts/alice.txt'')])
     = ([], Inr (JStr ''i like tea''))
   \<and> snd (load_transcript_text sample_loads
           (map_of [(''transcripts/alice.json'', sample_transcript_body)])
           ''bond-audio-uploads'' ''uploads/alice.mp3'' (JObj [(''ok'', JBool False)]))
     = Inr (JStr ''i like chess'')"
proof -
  let ?m = "map_of [(''transcripts/alice.json'', sample_transcript_body)]"
  let ?p = "JObj [(''results'',
               JObj [(''transcripts'', JArr [JObj [(''transcript'', JStr ''i like chess'')]])])]"
  have bn: "base_name ''uploads/alice.mp3'' = ''alice''"
    by (simp add: base_name_def basename_def splitext_root_def)
  have st: "strip ''i like tea'' \<noteq> []"
    by (simp add: strip_def lstrip_def rstrip_def is_space_def)
  have h1: "JObj [(''transcript'', JStr ''i like tea''), (''transcriptKey'', JStr ''transcripts/alice.txt'')]
              = JObj [(''transcript'', JStr ''i like tea''), (''transcriptKey'', JStr ''transcripts/alice.txt'')]
            \<and> map_of [(''transcript'', JStr ''i like tea''), (''transcriptKey'', JStr ''transcripts/alice.txt'')]
                 ''transcript'' = Some (JStr ''i like tea'')
            \<and> strip ''i like tea'' \<noteq> []"
    using st by simp
  have h2: "inline_transcript (JObj [(''ok'', JBool False)]) = None
        \<and> transcript_key (JObj [(''ok'', JBool False)]) = None
        \<and> ?m (''transcripts/'' @ base_name ''uploads/alice.mp3'' @ ''.txt'') = None
        \<and> ?m (''transcripts/'' @ base_name ''uploads/alice.mp3'' @ ''.json'') = Some sample_transcript_body
        \<and> sample_loads sample_transcript_body = Some ?p \<and> \<not> has_key ?p ''transcript''
        \<and> subscript_key ?p ''results''
             = Inr (JObj [(''transcripts'', JArr [JObj [(''transcript'', JStr ''i like chess'')]])])
        \<and> subscript_key (JObj [(''transcripts'', JArr [JObj [(''transcript'', JStr ''i like chess'')]])])
             ''transcripts'' = Inr (JArr [JObj [(''transcript'', JStr ''i like chess'')]])
        \<and> subscript_idx (JArr [JObj [(''transcript'', JStr ''i like chess'')]]) 0
             = Inr (JObj [(''transcript'', JStr ''i like chess'')])
        \<and> subscript_key (JObj [(''transcript'', JStr ''i like chess'')]) ''transcript''
             = Inr (JStr ''i like chess'')"
    by (simp add: bn inline_transcript_def transcript_key_def sample_loads_def
        sample_transcript_body_def sample_request_body_def sample_pair_body_def
        sample_same_body_def)
  from C4_resolution_order [of
      "JObj [(''transcript'', JStr ''i like tea''), (''transcriptKey'', JStr ''transcripts/alice.txt'')]"
      "[(''transcript'', JStr ''i like tea''), (''transcriptKey'', JStr ''transcripts/alice.txt'')]"
      "''i like tea''" sample_loads ?m "''bond-audio-uploads''" "''uploads/alice.mp3''"] h1
  have r1: "load_transcript_text sample_loads ?m ''bond-audio-uploads'' ''uploads/alice.mp3''
      (JObj [(''transcript'', JStr ''i like tea''), (''transcriptKey'', JStr ''transcripts/alice.txt'')])
     = ([], Inr (JStr ''i like tea''))"
    by blast
  from C4_resolution_order [of "JObj [(''ok'', JBool False)]" "[]" "''x''" sample_loads ?m
      "''bond-audio-uploads''" "''uploads/alice.mp3''" sample_transcript_body ?p] h2
  have r2: "snd (load_transcript_text sample_loads ?m ''bond-audio-uploads'' ''uploads/alice.mp3''
      (JObj [(''ok'', JBool False)])) = Inr (JStr ''i like chess'')"
    by (metis snd_conv)
  from r1 r2 show ?thesis by blast
qed

section \<open>Request validation\<close>

text \<open>
  C7: when either identifier is empty after sanitization, the handler answers 400 with
  the message that both profiles are required, and its request log is empty: no vector and
  no profile has been looked up or read.
\<close>

theorem C7_empty_identifier:
  assumes "decode_body sv ev = Inr b" and "parse_body sv b = Some payload"
    and "py_get payload ''profileA'' = Inr ra" and "sanitize ra = Inr a"
    and "py_get payload ''profileB'' = Inr rb" and "sanitize rb = Inr b'"
    and "a = [] \<or> b' = []"
  shows "handler sv s ev = ([], BadRequest ''profileA and profileB are required'')"
  using assms by (auto simp: handler_def compare_profiles_def)

theorem C7_empty_identifier_witness:
  "handler sample_services sample_store \<lparr>body = Some sample_request_body, isBase64Encoded = False\<rparr>
     = ([], BadRequest ''profileA and profileB are required'')"
proof -
  let ?ev = "\<lparr>body = Some sample_request_body, isBase64Encoded = False\<rparr>"
  let ?payload = "JObj [(''profileA'', JStr ''Alice''), (''profileB'', JStr '' '')]"
  have d: "decode_body sample_services ?ev = Inr (Some sample_request_body)"
    by (simp add: decode_body_def)
  have p: "parse_body sample_services (Some sample_request_body) = Some ?payload"
    by (simp add: parse_body_def sample_services_def sample_loads_def sample_request_body_def)
  have ga: "py_get ?payload ''profileA'' = Inr (JStr ''Alice'')"
    and gb: "py_get ?payload ''profileB'' = Inr (JStr '' '')"
    by simp_all
  have sa: "sanitize (JStr ''Alice'') = Inr ''alice''"
    and sb: "sanitize (JStr '' '') = Inr []"
    by (simp_all add: sanitize_str_def text_simps)
  have e: "''alice'' = [] \<or> ([]::string) = []" by simp
  show ?thesis by (rule C7_empty_identifier [OF d p ga sa gb sb e])
qed


section \<open>Enrichment failures\<close>

lemma cosine_unit: "cosine [1, 0] [0, 1] = Inr 0"
  by (simp add: cosine_def dot_def norm2_def py_divide_def)

lemma icebreaker_error_degrades:
  "icebreaker_service sv pa pb = Inl e \<Longrightarrow> make_icebreakers sv (Some pa) (Some pb) = None"
  by (simp add: make_icebreakers_def build_icebreakers_between_profiles_def)

lemma missing_profile_degrades:
  "docs s (profile_key name) = None \<Longrightarrow>
   enrich_one sv s name = ([Head (profile_key name)], Inr (None, None))"
  by (simp add: enrich_one_def load_profile_def load_s3_json_def)

text \<open>
  C1 states that every enrichment failure leaves a successful response with the computed
  similarity.  The handler does so for a missing profile and for a failing icebreaker call
  (the two lemmas above), not for a failing summary call: with both vectors stored, the
  similarity computed as 0 and the profile of \<open>alice\<close> present, a text-generation error while
  building her summary ends the request with a 500 response.
\<close>

theorem C1_summary_error_escalates:
  "load_vector sample_store ''alice'' = ([Head ''profiles/alice/vector.json'', Get ''profiles/alice/vector.json''], Inr [1, 0])
   \<and> load_vector sample_store ''bob'' = ([Head ''profiles/bob/vector.json'', Get ''profiles/bob/vector.json''], Inr [0, 1])
   \<and> cosine [1, 0] [0, 1] = Inr 0
   \<and> snd (handler sample_services sample_store
              \<lparr>body = Some sample_pair_body, isBase64Encoded = False\<rparr>)
       = ServerError (ServiceError ''ThrottlingException'')"
proof -
  have lv: "load_vector sample_store ''alice'' = ([Head ''profiles/alice/vector.json'', Get ''profiles/alice/vector.json''], Inr [1, 0])"
    "load_vector sample_store ''bob'' = ([Head ''profiles/bob/vector.json'', Get ''profiles/bob/vector.json''], Inr [0, 1])"
    by (simp_all add: load_vector_def load_s3_json_def vector_key_def sample_store_def)
  have en: "enrich_one sample_services sample_store ''alice''
      = ([Head ''profiles/alice/profile.json'', Get ''profiles/alice/profile.json''],
         Inl (ServiceError ''ThrottlingException''))"
    by (simp add: enrich_one_def load_profile_def load_s3_json_def profile_key_def sample_store_def
        build_sentence_from_profile_def sample_services_def throttled_summary_service_def)
  have se: "score_and_enrich sample_services sample_store ''alice'' ''bob'' [1, 0] [0, 1]
      = ([Head ''profiles/alice/profile.json'', Get ''profiles/alice/profile.json''],
         ServerError (ServiceError ''ThrottlingException''))"
    by (simp add: score_and_enrich_def cosine_unit en)
  have p: "parse_body sample_services (Some sample_pair_body)
      = Some (JObj [(''profileA'', JStr ''alice''), (''profileB'', JStr ''bob'')])"
    by (simp add: parse_body_def sample_services_def sample_loads_def sample_request_body_def
        sample_pair_body_def)
  have sa: "sanitize_str ''alice'' = ''alice''" "sanitize_str ''bob'' = ''bob''"
    by (simp_all add: sanitize_str_def text_simps)
  have "snd (compare_profiles sample_services sample_store
          (JObj [(''profileA'', JStr ''alice''), (''profileB'', JStr ''bob'')]))
      = ServerError (ServiceError ''ThrottlingException'')"
    by (simp add: compare_profiles_def sa lv se)
  then have "snd (handler sample_services sample_store
              \<lparr>body = Some sample_pair_body, isBase64Encoded = False\<rparr>)
       = ServerError (ServiceError ''ThrottlingException'')"
    by (simp add: handler_def decode_body_def p)
  with lv cosine_unit show ?thesis by blast
qed


section \<open>Storage identifiers\<close>

lemma save_keys:
  "save_profile_and_vector s name profile vector = (s', l, (pkey, vkey)) \<Longrightarrow>
   pkey = profile_key name \<and> vkey = vector_key name
   \<and> docs s' pkey = Some profile \<and> vectors s' vkey = Some vector"
  by (auto simp: save_profile_and_vector_def Let_def profile_key_def vector_key_def)

lemma lambda_handler_keys:
  assumes "lambda_handler sv s bucket key = (s', Inr r)"
  shows "res_profile_name r = base_name key
         \<and> res_profile_key r = profile_key (base_name key)
         \<and> res_vector_key r = vector_key (base_name key)
         \<and> docs s' (profile_key (base_name key)) \<noteq> None
         \<and> vectors s' (vector_key (base_name key)) \<noteq> None"
  using assms
  by (auto simp: lambda_handler_def Let_def
      split: prod.splits sum.splits dest!: save_keys)

lemma readable_when_sanitized:
  assumes "lambda_handler sv s bucket key = (s', Inr r)"
    and "sanitize_str (base_name key) = base_name key"
  shows "\<exists>v. snd (load_vector s' (sanitize_str (base_name key))) = Inr v"
  using lambda_handler_keys [OF assms(1)] assms(2)
  by (auto simp: load_vector_def load_s3_json_def)

text \<open>
  C2 states that profile and vector are stored under the sanitized identifier, so that the
  similarity service reads back what the pipeline wrote.  Both objects do share one
  identifier (lemma \<open>lambda_handler_keys\<close>), but it is the base file name as it stands: a
  recording \<open>uploads/Alice.mp3\<close> is stored under \<open>profiles/Alice/\<close>, and the similarity
  service, asked for \<open>Alice\<close>, looks under \<open>profiles/alice/\<close> and answers 404.
\<close>

theorem C2_unsanitized_identifier:
  "snd (lambda_handler sample_ingest empty_store ''bond-audio-uploads'' ''uploads/Alice.mp3'')
     = Inr \<lparr>res_bucket = ''bond-audio-uploads'', res_profile_name = ''Alice'',
            res_profile_key = ''profiles/Alice/profile.json'',
            res_vector_key = ''profiles/Alice/vector.json''\<rparr>
   \<and> handler sample_services
        (fst (lambda_handler sample_ingest empty_store ''bond-audio-uploads'' ''uploads/Alice.mp3''))
        \<lparr>body = Some sample_same_body, isBase64Encoded = False\<rparr>
     = ([Head ''profiles/alice/vector.json''],
        NotFound ''Vector file not found: profiles/alice/vector.json'')"
proof -
  have bn: "base_name ''uploads/Alice.mp3'' = ''Alice''"
    by (simp add: base_name_def basename_def splitext_root_def)
  have lt: "\<And>m. load_transcript_text sample_loads m ''bond-audio-uploads'' ''uploads/Alice.mp3''
              (JObj [(''transcript'', JStr ''i like chess'')]) = ([], Inr (JStr ''i like chess''))"
    by (simp add: load_transcript_text_def inline_transcript_def text_simps)
  have bp: "build_profile_from_transcript sample_loads empty_extract_service (JStr ''i like chess'')
              = Inr (JObj [])"
    by (simp add: build_profile_from_transcript_def empty_extract_service_def text_blocks_def
        parse_profile_text_def sample_loads_def text_simps)
  have po: "profile_of (JObj []) = Some (\<lambda>k. None)"
    by (simp add: profile_of_def)
  have lh: "lambda_handler sample_ingest empty_store ''bond-audio-uploads'' ''uploads/Alice.mp3''
      = (\<lparr>texts = map_of [],
           docs = [''profiles/Alice/profile.json'' \<mapsto> JObj []],
           vectors = [''profiles/Alice/vector.json'' \<mapsto> [1, 0]]\<rparr>,
         Inr \<lparr>res_bucket = ''bond-audio-uploads'', res_profile_name = ''Alice'',
              res_profile_key = ''profiles/Alice/profile.json'',
              res_vector_key = ''profiles/Alice/vector.json''\<rparr>)"
    by (simp add: lambda_handler_def sample_ingest_def inline_run_vpm_def empty_store_def bn lt bp po
        embed_profile_def unit_embed_text_def save_profile_and_vector_def Let_def)
  have p: "parse_body sample_services (Some sample_same_body)
      = Some (JObj [(''profileA'', JStr ''Alice''), (''profileB'', JStr ''Alice'')])"
    by (simp add: parse_body_def sample_services_def sample_loads_def sample_request_body_def
        sample_pair_body_def sample_same_body_def)
  have sa: "sanitize_str ''Alice'' = ''alice''"
    by (simp add: sanitize_str_def text_simps)
  have "handler sample_services
        \<lparr>texts = map_of [],
           docs = [''profiles/Alice/profile.json'' \<mapsto> JObj []],
           vectors = [''profiles/Alice/vector.json'' \<mapsto> [1, 0]]\<rparr>
        \<lparr>body = Some sample_same_body, isBase64Encoded = False\<rparr>
     = ([Head ''profiles/alice/vector.json''],
        NotFound ''Vector file not found: profiles/alice/vector.json'')"
    by (simp add: handler_def decode_body_def p compare_profiles_def sa load_vector_def
        load_s3_json_def vector_key_def)
  then show ?thesis by (simp add: lh)
qed

end
